theory Spec2Isabelle
  imports Main "HOL-Library.AList" "HOL-Library.Sublist"
begin

section \<open>Certificate Monkey infrastructure: the Pulumi program \<open>infrastructure/__main__.py\<close>\<close>

text \<open>
  The program is one straight-line module: it reads two configuration values, declares
  a KMS key, a KMS alias, a DynamoDB table, an IAM policy document and an IAM policy,
  and registers seven stack outputs. Each module-level variable of the source is a
  definition of the same name below; what the source reads from the variables bound
  before it is a parameter of the definition.

  Three things come from outside the module and are parameters of the model:
  \<^item> the stack configuration (\<open>pulumi.Config()\<close>), a finite map from keys to strings;
  \<^item> the region of the AWS provider (\<open>aws.get_region().name\<close>);
  \<^item> the identifiers the provider assigns to the resources it creates (the key's id
    and ARN, the table's ARN, the policy's ARN), which no line of the module computes.
\<close>

subsection \<open>Configuration\<close>

type_synonym config = "string \<rightharpoonup> string"

text \<open>
  \<open>Config.get(key, default)\<close>: the value stored under the key, the default when the key
  is unset. It never raises (that is \<open>Config.require\<close>), and a key set to the empty
  string yields the empty string.
\<close>

definition config_get :: "config \<Rightarrow> string \<Rightarrow> string \<Rightarrow> string" where
  "config_get cfg key dflt = (case cfg key of None \<Rightarrow> dflt | Some v \<Rightarrow> v)"

text \<open>Line 15: \<open>environment = config.get("environment", "dev")\<close>.\<close>

definition environment :: "config \<Rightarrow> string" where
  "environment cfg = config_get cfg ''environment'' ''dev''"

text \<open>Line 16: \<open>table_name = config.get("table_name", f"certificate-monkey-{environment}")\<close>.\<close>

definition table_name :: "config \<Rightarrow> string" where
  "table_name cfg = config_get cfg ''table_name'' (''certificate-monkey-'' @ environment cfg)"

subsection \<open>What the provider assigns\<close>

record assigned =
  assigned_key_id :: string
  assigned_key_arn :: string
  assigned_table_arn :: string
  assigned_policy_arn :: string

subsection \<open>Resource descriptions\<close>

text \<open>
  A resource is the arguments the module passes to its constructor, together with the
  output properties the module reads back from it. An output property that carries the
  name of an input property (\<open>dynamodb_table.name\<close>, \<open>kms_alias.name\<close>) is that input;
  \<open>arn\<close> and \<open>key_id\<close> are the provider's. A Python dict literal is an association list
  in the order written.
\<close>

type_synonym tags = "(string \<times> string) list"

record Key =
  key_resource :: string
  key_description :: string
  key_deletion_window_in_days :: int
  key_tags :: tags
  key_id :: string
  key_arn :: string

record Alias =
  alias_resource :: string
  alias_name :: string
  alias_target_key_id :: string

record TableAttributeArgs =
  attr_name :: string
  attr_type :: string

record TableGlobalSecondaryIndexArgs =
  gsi_name :: string
  gsi_hash_key :: string
  gsi_projection_type :: string

record TableServerSideEncryptionArgs =
  sse_enabled :: bool
  sse_kms_key_arn :: string

record TablePointInTimeRecoveryArgs =
  pitr_enabled :: bool

record Table =
  tbl_resource :: string
  tbl_name :: string
  tbl_billing_mode :: string
  tbl_hash_key :: string
  tbl_attributes :: "TableAttributeArgs list"
  tbl_global_secondary_indexes :: "TableGlobalSecondaryIndexArgs list"
  tbl_server_side_encryption :: TableServerSideEncryptionArgs
  tbl_point_in_time_recovery :: TablePointInTimeRecoveryArgs
  tbl_tags :: tags
  tbl_arn :: string

record StatementConditionArgs =
  cond_test :: string
  cond_variable :: string
  cond_values :: "string list"

record StatementArgs =
  stmt_effect :: string
  stmt_actions :: "string list"
  stmt_resources :: "string list"
  stmt_conditions :: "StatementConditionArgs list"

text \<open>
  The result of \<open>aws.iam.get_policy_document\<close>. Its \<open>json\<close> property is the provider's
  rendering of the statements; the model keeps the statements themselves.
\<close>

record PolicyDocument =
  doc_statements :: "StatementArgs list"

record Policy =
  pol_resource :: string
  pol_name :: string
  pol_description :: string
  pol_policy :: PolicyDocument
  pol_tags :: tags
  pol_arn :: string

subsection \<open>Stack outputs\<close>

datatype output_value = Str string | Dict "(string \<times> string) list"

type_synonym stack_outputs = "(string \<times> output_value) list"

text \<open>
  \<open>pulumi.export(name, value)\<close> stores the value under the name in the stack's output
  dictionary: a name exported before is overwritten in place, a new one is appended.
\<close>

definition export :: "string \<Rightarrow> output_value \<Rightarrow> stack_outputs \<Rightarrow> stack_outputs" where
  "export name v outs = AList.update name v outs"

subsection \<open>The module, statement by statement\<close>

text \<open>Lines 19-29.\<close>

definition kms_key :: "string \<Rightarrow> assigned \<Rightarrow> Key" where
  "kms_key env p =
     \<lparr> key_resource = ''certificate-monkey-kms-key'',
       key_description = ''Certificate Monkey private key encryption'',
       key_deletion_window_in_days = 7,
       key_tags =
         [ (''Name'', ''certificate-monkey-'' @ env),
           (''Environment'', env),
           (''Application'', ''certificate-monkey''),
           (''Purpose'', ''private-key-encryption'') ],
       key_id = assigned_key_id p,
       key_arn = assigned_key_arn p \<rparr>"

text \<open>Lines 32-36.\<close>

definition kms_alias :: "string \<Rightarrow> Key \<Rightarrow> Alias" where
  "kms_alias env k =
     \<lparr> alias_resource = ''certificate-monkey-kms-alias'',
       alias_name = ''alias/certificate-monkey-'' @ env,
       alias_target_key_id = key_id k \<rparr>"

text \<open>Lines 39-78.\<close>

definition dynamodb_table :: "string \<Rightarrow> string \<Rightarrow> Key \<Rightarrow> assigned \<Rightarrow> Table" where
  "dynamodb_table env tname k p =
     \<lparr> tbl_resource = ''certificate-monkey-table'',
       tbl_name = tname,
       tbl_billing_mode = ''PAY_PER_REQUEST'',
       tbl_hash_key = ''id'',
       tbl_attributes =
         [ \<lparr> attr_name = ''id'', attr_type = ''S'' \<rparr>,
           \<lparr> attr_name = ''created_at'', attr_type = ''S'' \<rparr> ],
       tbl_global_secondary_indexes =
         [ \<lparr> gsi_name = ''created_at-index'',
             gsi_hash_key = ''created_at'',
             gsi_projection_type = ''ALL'' \<rparr> ],
       tbl_server_side_encryption =
         \<lparr> sse_enabled = True, sse_kms_key_arn = key_arn k \<rparr>,
       tbl_point_in_time_recovery = \<lparr> pitr_enabled = True \<rparr>,
       tbl_tags =
         [ (''Name'', tname),
           (''Environment'', env),
           (''Application'', ''certificate-monkey''),
           (''Purpose'', ''certificate-storage'') ],
       tbl_arn = assigned_table_arn p \<rparr>"

text \<open>Lines 81-115. \<open>pulumi.Output.concat\<close> is string concatenation.\<close>

definition app_policy_document :: "Table \<Rightarrow> Key \<Rightarrow> string \<Rightarrow> PolicyDocument" where
  "app_policy_document t k region =
     \<lparr> doc_statements =
         [ \<lparr> stmt_effect = ''Allow'',
             stmt_actions =
               [ ''dynamodb:PutItem'',
                 ''dynamodb:GetItem'',
                 ''dynamodb:UpdateItem'',
                 ''dynamodb:DeleteItem'',
                 ''dynamodb:Scan'' ],
             stmt_resources = [ tbl_arn t, tbl_arn t @ ''/index/*'' ],
             stmt_conditions = [] \<rparr>,
           \<lparr> stmt_effect = ''Allow'',
             stmt_actions = [ ''kms:Encrypt'', ''kms:Decrypt'' ],
             stmt_resources = [ key_arn k ],
             stmt_conditions =
               [ \<lparr> cond_test = ''StringEquals'',
                   cond_variable = ''kms:ViaService'',
                   cond_values = [ ''dynamodb.'' @ region @ ''.amazonaws.com'' ] \<rparr> ] \<rparr> ] \<rparr>"

text \<open>Lines 118-128.\<close>

definition app_policy :: "string \<Rightarrow> PolicyDocument \<Rightarrow> assigned \<Rightarrow> Policy" where
  "app_policy env doc p =
     \<lparr> pol_resource = ''certificate-monkey-app-policy'',
       pol_name = ''certificate-monkey-'' @ env @ ''-policy'',
       pol_description = ''IAM policy for Certificate Monkey application'',
       pol_policy = doc,
       pol_tags =
         [ (''Name'', ''certificate-monkey-'' @ env @ ''-policy''),
           (''Environment'', env),
           (''Application'', ''certificate-monkey'') ],
       pol_arn = assigned_policy_arn p \<rparr>"

text \<open>Lines 131-143: seven calls of \<open>pulumi.export\<close>, in this order, on an empty stack.\<close>

definition exports :: "Table \<Rightarrow> Key \<Rightarrow> Alias \<Rightarrow> Policy \<Rightarrow> string \<Rightarrow> stack_outputs" where
  "exports t k a pol region =
     (let outs = [];
          outs = export ''dynamodb_table_name'' (Str (tbl_name t)) outs;
          outs = export ''dynamodb_table_arn'' (Str (tbl_arn t)) outs;
          outs = export ''kms_key_id'' (Str (key_id k)) outs;
          outs = export ''kms_key_arn'' (Str (key_arn k)) outs;
          outs = export ''kms_alias_name'' (Str (alias_name a)) outs;
          outs = export ''iam_policy_arn'' (Str (pol_arn pol)) outs;
          outs = export ''environment_variables''
                   (Dict [ (''DYNAMODB_TABLE'', tbl_name t),
                           (''KMS_KEY_ID'', alias_name a),
                           (''AWS_REGION'', region) ]) outs
      in outs)"

subsection \<open>The whole run\<close>

record stack =
  st_kms_key :: Key
  st_kms_alias :: Alias
  st_dynamodb_table :: Table
  st_app_policy_document :: PolicyDocument
  st_app_policy :: Policy
  st_outputs :: stack_outputs

definition module_body :: "config \<Rightarrow> string \<Rightarrow> assigned \<Rightarrow> stack" where
  "module_body cfg region p =
     (let env = environment cfg;
          tname = table_name cfg;
          k = kms_key env p;
          a = kms_alias env k;
          t = dynamodb_table env tname k p;
          doc = app_policy_document t k region;
          pol = app_policy env doc p
      in \<lparr> st_kms_key = k,
           st_kms_alias = a,
           st_dynamodb_table = t,
           st_app_policy_document = doc,
           st_app_policy = pol,
           st_outputs = exports t k a pol region \<rparr>)"

text \<open>
  The errors the design names. The module has no \<open>raise\<close> and calls nothing of the
  configuration that raises, so running it always yields a stack.
\<close>

datatype error = ConfigError | DependencyOrderError

definition main :: "config \<Rightarrow> string \<Rightarrow> assigned \<Rightarrow> error + stack" where
  "main cfg region p = Inr (module_body cfg region p)"

text \<open>Reading an entry of the exported \<open>environment_variables\<close> dictionary.\<close>

definition environment_variable :: "stack_outputs \<Rightarrow> string \<Rightarrow> string option" where
  "environment_variable outs var =
     (case map_of outs ''environment_variables'' of
        Some (Dict d) \<Rightarrow> map_of d var
      | _ \<Rightarrow> None)"

section \<open>Properties\<close>

subsection \<open>Helper facts\<close>

lemma exports_eq:
  "exports t k a pol region =
     [ (''dynamodb_table_name'', Str (tbl_name t)),
       (''dynamodb_table_arn'', Str (tbl_arn t)),
       (''kms_key_id'', Str (key_id k)),
       (''kms_key_arn'', Str (key_arn k)),
       (''kms_alias_name'', Str (alias_name a)),
       (''iam_policy_arn'', Str (pol_arn pol)),
       (''environment_variables'',
          Dict [ (''DYNAMODB_TABLE'', tbl_name t),
                 (''KMS_KEY_ID'', alias_name a),
                 (''AWS_REGION'', region) ]) ]"
  by (simp add: exports_def export_def)

lemma module_body_sel:
  "st_kms_key (module_body cfg region p) = kms_key (environment cfg) p"
  "st_kms_alias (module_body cfg region p) =
     kms_alias (environment cfg) (kms_key (environment cfg) p)"
  "st_dynamodb_table (module_body cfg region p) =
     dynamodb_table (environment cfg) (table_name cfg) (kms_key (environment cfg) p) p"
  "st_app_policy_document (module_body cfg region p) =
     app_policy_document
       (dynamodb_table (environment cfg) (table_name cfg) (kms_key (environment cfg) p) p)
       (kms_key (environment cfg) p) region"
  by (simp_all add: module_body_def Let_def)


lemma module_body_outputs:
  "st_outputs (module_body cfg region p) =
     [ (''dynamodb_table_name'', Str (table_name cfg)),
       (''dynamodb_table_arn'', Str (assigned_table_arn p)),
       (''kms_key_id'', Str (assigned_key_id p)),
       (''kms_key_arn'', Str (assigned_key_arn p)),
       (''kms_alias_name'', Str (''alias/certificate-monkey-'' @ environment cfg)),
       (''iam_policy_arn'', Str (assigned_policy_arn p)),
       (''environment_variables'',
          Dict [ (''DYNAMODB_TABLE'', table_name cfg),
                 (''KMS_KEY_ID'', ''alias/certificate-monkey-'' @ environment cfg),
                 (''AWS_REGION'', region) ]) ]"
  by (simp add: module_body_def Let_def exports_eq kms_key_def kms_alias_def
      dynamodb_table_def app_policy_def)

lemma alias_name_not_key_id:
  assumes np: "\<not> prefix ''alias/'' kid"
  shows "''alias/certificate-monkey-'' @ env \<noteq> kid"
proof
  assume eq: "''alias/certificate-monkey-'' @ env = kid"
  have "prefix ''alias/'' kid"
    unfolding eq [symmetric] by simp
  with np show False
    by contradiction
qed

subsection \<open>The policy document\<close>

text \<open>
  C1. The policy document of a run has exactly two statements. The first allows the
  DynamoDB actions on the table's ARN and on that ARN followed by \<open>/index/*\<close>. The
  second allows exactly \<open>kms:Encrypt\<close> and \<open>kms:Decrypt\<close> on the key's ARN, under one
  \<open>StringEquals\<close> condition on \<open>kms:ViaService\<close> whose only value is
  \<open>dynamodb.<region>.amazonaws.com\<close> for the region supplied; for \<open>us-east-1\<close> that
  is \<open>dynamodb.us-east-1.amazonaws.com\<close>.
\<close>

theorem app_policy_document_two_statements:
  "doc_statements (st_app_policy_document (module_body cfg region p)) =
     [ \<lparr> stmt_effect = ''Allow'',
         stmt_actions =
           [ ''dynamodb:PutItem'', ''dynamodb:GetItem'', ''dynamodb:UpdateItem'',
             ''dynamodb:DeleteItem'', ''dynamodb:Scan'' ],
         stmt_resources = [ assigned_table_arn p, assigned_table_arn p @ ''/index/*'' ],
         stmt_conditions = [] \<rparr>,
       \<lparr> stmt_effect = ''Allow'',
         stmt_actions = [ ''kms:Encrypt'', ''kms:Decrypt'' ],
         stmt_resources = [ assigned_key_arn p ],
         stmt_conditions =
           [ \<lparr> cond_test = ''StringEquals'',
               cond_variable = ''kms:ViaService'',
               cond_values = [ ''dynamodb.'' @ region @ ''.amazonaws.com'' ] \<rparr> ] \<rparr> ]
   \<and> length (doc_statements (st_app_policy_document (module_body cfg region p))) = 2
   \<and> map cond_values
        (stmt_conditions
          (doc_statements (st_app_policy_document (module_body cfg ''us-east-1'' p)) ! 1)) =
        [ [ ''dynamodb.us-east-1.amazonaws.com'' ] ]"
  by (simp add: module_body_sel app_policy_document_def dynamodb_table_def kms_key_def)

subsection \<open>The environment variables\<close>

text \<open>
  C2. The \<open>KMS_KEY_ID\<close> entry of the exported \<open>environment_variables\<close> is the alias
  name \<open>alias/certificate-monkey-<environment>\<close>, the same string as the exported
  \<open>kms_alias_name\<close>, whatever identifier the provider gave the key. The exported
  \<open>kms_key_id\<close> is that identifier, and the entry differs from it for every
  identifier that does not itself start with the reserved prefix \<open>alias/\<close>.
\<close>

theorem environment_variables_KMS_KEY_ID_is_alias_name:
  "environment_variable (st_outputs (module_body cfg region p)) ''KMS_KEY_ID'' =
     Some (''alias/certificate-monkey-'' @ environment cfg)
   \<and> map_of (st_outputs (module_body cfg region p)) ''kms_alias_name'' =
     Some (Str (''alias/certificate-monkey-'' @ environment cfg))
   \<and> alias_name (st_kms_alias (module_body cfg region p)) =
     ''alias/certificate-monkey-'' @ environment cfg
   \<and> map_of (st_outputs (module_body cfg region p)) ''kms_key_id'' =
     Some (Str (assigned_key_id p))
   \<and> (\<not> prefix ''alias/'' (assigned_key_id p) \<longrightarrow>
        environment_variable (st_outputs (module_body cfg region p)) ''KMS_KEY_ID'' \<noteq>
          Some (assigned_key_id p))"
proof -
  have "''alias/certificate-monkey-'' @ environment cfg \<noteq> assigned_key_id p"
    if "\<not> prefix ''alias/'' (assigned_key_id p)"
    using that by (rule alias_name_not_key_id)
  then show ?thesis
    by (simp add: module_body_outputs module_body_sel environment_variable_def
        kms_alias_def)
qed

theorem environment_variables_KMS_KEY_ID_witness:
  "\<not> prefix ''alias/'' ''1234abcd-12ab-34cd-56ef-1234567890ab''
   \<and> environment_variable
       (st_outputs (module_body Map.empty ''us-east-1''
          \<lparr> assigned_key_id = ''1234abcd-12ab-34cd-56ef-1234567890ab'',
            assigned_key_arn = ''arn:aws:kms:us-east-1:111122223333:key/1234abcd-12ab-34cd-56ef-1234567890ab'',
            assigned_table_arn = ''arn:aws:dynamodb:us-east-1:111122223333:table/certificate-monkey-dev'',
            assigned_policy_arn = ''arn:aws:iam::111122223333:policy/certificate-monkey-dev-policy'' \<rparr>))
       ''KMS_KEY_ID'' = Some ''alias/certificate-monkey-dev''
   \<and> environment_variable
       (st_outputs (module_body Map.empty ''us-east-1''
          \<lparr> assigned_key_id = ''1234abcd-12ab-34cd-56ef-1234567890ab'',
            assigned_key_arn = ''arn:aws:kms:us-east-1:111122223333:key/1234abcd-12ab-34cd-56ef-1234567890ab'',
            assigned_table_arn = ''arn:aws:dynamodb:us-east-1:111122223333:table/certificate-monkey-dev'',
            assigned_policy_arn = ''arn:aws:iam::111122223333:policy/certificate-monkey-dev-policy'' \<rparr>))
       ''KMS_KEY_ID'' \<noteq> Some ''1234abcd-12ab-34cd-56ef-1234567890ab''"
proof -
  have h: "\<not> prefix ''alias/'' ''1234abcd-12ab-34cd-56ef-1234567890ab''"
    by simp
  from h environment_variables_KMS_KEY_ID_is_alias_name [of Map.empty "''us-east-1''"
      "\<lparr> assigned_key_id = ''1234abcd-12ab-34cd-56ef-1234567890ab'',
         assigned_key_arn = ''arn:aws:kms:us-east-1:111122223333:key/1234abcd-12ab-34cd-56ef-1234567890ab'',
         assigned_table_arn = ''arn:aws:dynamodb:us-east-1:111122223333:table/certificate-monkey-dev'',
         assigned_policy_arn = ''arn:aws:iam::111122223333:policy/certificate-monkey-dev-policy'' \<rparr>"]
  show ?thesis
    by (simp add: environment_def config_get_def)
qed

subsection \<open>The table\<close>

text \<open>
  C3. For every configuration, region and provider assignment, the table of the run has
  server-side encryption enabled with the ARN of the run's KMS key, and point-in-time
  recovery enabled. The same holds of the table constructor on any arguments: none of
  them reaches either flag.
\<close>

theorem dynamodb_table_encryption_and_recovery_enabled:
  "sse_enabled (tbl_server_side_encryption (st_dynamodb_table (module_body cfg region p)))
   \<and> sse_kms_key_arn (tbl_server_side_encryption (st_dynamodb_table (module_body cfg region p))) =
       key_arn (st_kms_key (module_body cfg region p))
   \<and> pitr_enabled (tbl_point_in_time_recovery (st_dynamodb_table (module_body cfg region p)))
   \<and> tbl_server_side_encryption (dynamodb_table env tname k p) =
       \<lparr> sse_enabled = True, sse_kms_key_arn = key_arn k \<rparr>
   \<and> tbl_point_in_time_recovery (dynamodb_table env tname k p) = \<lparr> pitr_enabled = True \<rparr>"
  by (simp add: module_body_sel dynamodb_table_def)

text \<open>
  C4. The declared name of the table is the \<open>table_name\<close> value of the configuration
  when there is one, and \<open>certificate-monkey-<environment>\<close> when there is none, for
  every environment string.
\<close>

theorem dynamodb_table_name_override_or_default:
  "tbl_name (st_dynamodb_table (module_body cfg region p)) =
     (case cfg ''table_name'' of
        Some t \<Rightarrow> t
      | None \<Rightarrow> ''certificate-monkey-'' @ environment cfg)
   \<and> tbl_name (st_dynamodb_table (module_body (cfg(''table_name'' \<mapsto> t)) region p)) = t
   \<and> tbl_name (st_dynamodb_table
        (module_body (cfg(''table_name'' := None, ''environment'' \<mapsto> e)) region p)) =
       ''certificate-monkey-'' @ e"
  by (simp add: module_body_sel dynamodb_table_def table_name_def environment_def
      config_get_def split: option.split)

text \<open>
  C5. The attributes of the table are \<open>id\<close> and \<open>created_at\<close>, so they cover the hash
  key of the table and the hash key of every global secondary index; and the table has
  exactly one global secondary index, on \<open>created_at\<close>, with projection type \<open>ALL\<close>.
\<close>

theorem dynamodb_table_attributes_cover_keys:
  "map attr_name (tbl_attributes (st_dynamodb_table (module_body cfg region p))) =
     [ ''id'', ''created_at'' ]
   \<and> {''id'', ''created_at''} \<subseteq>
       set (map attr_name (tbl_attributes (st_dynamodb_table (module_body cfg region p))))
   \<and> set (tbl_hash_key (st_dynamodb_table (module_body cfg region p)) #
          map gsi_hash_key
            (tbl_global_secondary_indexes (st_dynamodb_table (module_body cfg region p)))) \<subseteq>
       set (map attr_name (tbl_attributes (st_dynamodb_table (module_body cfg region p))))
   \<and> tbl_global_secondary_indexes (st_dynamodb_table (module_body cfg region p)) =
       [ \<lparr> gsi_name = ''created_at-index'',
           gsi_hash_key = ''created_at'',
           gsi_projection_type = ''ALL'' \<rparr> ]
   \<and> length (tbl_global_secondary_indexes (st_dynamodb_table (module_body cfg region p))) = 1"
  by (simp add: module_body_sel dynamodb_table_def)

subsection \<open>The key and its alias\<close>

text \<open>
  C6, as the specification states it: building the KMS key fails with \<open>ConfigError\<close> when
  the environment string is empty. The run below has the environment set to the empty
  string: it yields a stack, not \<open>ConfigError\<close>, and the key is declared with the
  \<open>Name\<close> tag \<open>certificate-monkey-\<close> and an empty \<open>Environment\<close> tag.
\<close>

theorem kms_key_empty_environment_counterexample:
  "environment [''environment'' \<mapsto> ''''] = ''''
   \<and> main [''environment'' \<mapsto> ''''] ''us-east-1''
         \<lparr> assigned_key_id = ''1234abcd-12ab-34cd-56ef-1234567890ab'',
            assigned_key_arn = ''arn:aws:kms:us-east-1:111122223333:key/1234abcd-12ab-34cd-56ef-1234567890ab'',
            assigned_table_arn = ''arn:aws:dynamodb:us-east-1:111122223333:table/certificate-monkey-'',
            assigned_policy_arn = ''arn:aws:iam::111122223333:policy/certificate-monkey--policy'' \<rparr> \<noteq> Inl ConfigError
   \<and> map_sum id (key_tags \<circ> st_kms_key)
        (main [''environment'' \<mapsto> ''''] ''us-east-1''
         \<lparr> assigned_key_id = ''1234abcd-12ab-34cd-56ef-1234567890ab'',
            assigned_key_arn = ''arn:aws:kms:us-east-1:111122223333:key/1234abcd-12ab-34cd-56ef-1234567890ab'',
            assigned_table_arn = ''arn:aws:dynamodb:us-east-1:111122223333:table/certificate-monkey-'',
            assigned_policy_arn = ''arn:aws:iam::111122223333:policy/certificate-monkey--policy'' \<rparr>) =
       Inr [ (''Name'', ''certificate-monkey-''),
             (''Environment'', ''''),
             (''Application'', ''certificate-monkey''),
             (''Purpose'', ''private-key-encryption'') ]"
  by (simp add: main_def module_body_sel kms_key_def environment_def config_get_def)

text \<open>
  C6, amended: building the KMS key has no failure mode. For every configuration, the
  empty environment string included, the run yields a stack and no error, and its key
  is declared with the tags \<open>Name = certificate-monkey-<environment>\<close> and
  \<open>Environment = <environment>\<close>; an environment that is not set is read as \<open>dev\<close>,
  and one that is set is taken as it is.
\<close>

theorem kms_key_no_failure_mode:
  "main cfg region p = Inr (module_body cfg region p)
   \<and> main cfg region p \<noteq> Inl err
   \<and> st_kms_key (module_body cfg region p) =
       \<lparr> key_resource = ''certificate-monkey-kms-key'',
         key_description = ''Certificate Monkey private key encryption'',
         key_deletion_window_in_days = 7,
         key_tags =
           [ (''Name'', ''certificate-monkey-'' @ environment cfg),
             (''Environment'', environment cfg),
             (''Application'', ''certificate-monkey''),
             (''Purpose'', ''private-key-encryption'') ],
         key_id = assigned_key_id p,
         key_arn = assigned_key_arn p \<rparr>
   \<and> environment (cfg(''environment'' := None)) = ''dev''
   \<and> environment (cfg(''environment'' \<mapsto> e)) = e"
  by (simp add: main_def module_body_sel kms_key_def environment_def config_get_def)

text \<open>
  C7. The name of the alias is \<open>alias/certificate-monkey-<environment>\<close>, which starts
  with \<open>alias/\<close>, and its target is the key id of the key declared in the same run.
\<close>

theorem kms_alias_name_and_target:
  "alias_name (st_kms_alias (module_body cfg region p)) =
     ''alias/certificate-monkey-'' @ environment cfg
   \<and> prefix ''alias/'' (alias_name (st_kms_alias (module_body cfg region p)))
   \<and> alias_target_key_id (st_kms_alias (module_body cfg region p)) =
       key_id (st_kms_key (module_body cfg region p))
   \<and> alias_target_key_id (kms_alias env k) = key_id k"
  by (simp add: module_body_sel kms_alias_def)

subsection \<open>The outputs\<close>

text \<open>
  C8. The outputs of a run are exactly \<open>dynamodb_table_name\<close>, \<open>dynamodb_table_arn\<close>,
  \<open>kms_key_id\<close>, \<open>kms_key_arn\<close>, \<open>kms_alias_name\<close>, \<open>iam_policy_arn\<close> and
  \<open>environment_variables\<close>, each bound to the attribute of the resource it is named
  after; \<open>environment_variables\<close> is a dictionary with exactly the keys
  \<open>DYNAMODB_TABLE\<close>, \<open>KMS_KEY_ID\<close> and \<open>AWS_REGION\<close>, bound to the table's name, the
  alias's name and the region.
\<close>

theorem stack_outputs_exact:
  "st_outputs (module_body cfg region p) =
     [ (''dynamodb_table_name'', Str (tbl_name (st_dynamodb_table (module_body cfg region p)))),
       (''dynamodb_table_arn'', Str (tbl_arn (st_dynamodb_table (module_body cfg region p)))),
       (''kms_key_id'', Str (key_id (st_kms_key (module_body cfg region p)))),
       (''kms_key_arn'', Str (key_arn (st_kms_key (module_body cfg region p)))),
       (''kms_alias_name'', Str (alias_name (st_kms_alias (module_body cfg region p)))),
       (''iam_policy_arn'', Str (pol_arn (st_app_policy (module_body cfg region p)))),
       (''environment_variables'',
          Dict [ (''DYNAMODB_TABLE'', tbl_name (st_dynamodb_table (module_body cfg region p))),
                 (''KMS_KEY_ID'', alias_name (st_kms_alias (module_body cfg region p))),
                 (''AWS_REGION'', region) ]) ]
   \<and> map fst (st_outputs (module_body cfg region p)) =
       [ ''dynamodb_table_name'', ''dynamodb_table_arn'', ''kms_key_id'', ''kms_key_arn'',
         ''kms_alias_name'', ''iam_policy_arn'', ''environment_variables'' ]
   \<and> distinct (map fst (st_outputs (module_body cfg region p)))"
  by (simp add: module_body_def Let_def exports_eq)

subsection \<open>What two runs share\<close>




subsection \<open>The DynamoDB statement\<close>

text \<open>
  C10. The first statement of the policy document grants exactly \<open>dynamodb:PutItem\<close>,
  \<open>dynamodb:GetItem\<close>, \<open>dynamodb:UpdateItem\<close>, \<open>dynamodb:DeleteItem\<close> and
  \<open>dynamodb:Scan\<close>. \<open>dynamodb:Query\<close> is not granted, while the index wildcard of the
  table is among the statement's resources.
\<close>

theorem dynamodb_statement_actions:
  "stmt_actions (doc_statements (st_app_policy_document (module_body cfg region p)) ! 0) =
     [ ''dynamodb:PutItem'', ''dynamodb:GetItem'', ''dynamodb:UpdateItem'',
       ''dynamodb:DeleteItem'', ''dynamodb:Scan'' ]
   \<and> ''dynamodb:Query'' \<notin>
       set (stmt_actions (doc_statements (st_app_policy_document (module_body cfg region p)) ! 0))
   \<and> ''dynamodb:Query'' \<notin>
       set (concat (map stmt_actions
         (doc_statements (st_app_policy_document (module_body cfg region p)))))
   \<and> tbl_arn (st_dynamodb_table (module_body cfg region p)) @ ''/index/*'' \<in>
       set (stmt_resources
         (doc_statements (st_app_policy_document (module_body cfg region p)) ! 0))"
  by (simp add: module_body_sel app_policy_document_def)

end
